theory Spec2Isabelle
  imports Main "HOL-Library.Word" "HOL-Library.Sublist"
begin

section \<open>JavaScript strings and the string operations the application uses\<close>

text \<open>
  A JavaScript string is a sequence of UTF-16 code units, so it is a list of 16-bit words.
  \<open>str\<close> embeds a Latin-1 literal; the emoji of the preset catalogue are written as
  their code units.
\<close>

type_synonym code_unit = "16 word"
type_synonym jsstring = "code_unit list"

definition str :: "string \<Rightarrow> jsstring" where
  "str s = map of_char s"

text \<open>
  \<open>String.prototype.trim\<close> strips the ECMAScript WhiteSpace and LineTerminator code
  points from both ends: TAB, VT, FF, SP, NBSP, ZWNBSP, the Unicode space separators, and
  LF, CR, LS, PS.
\<close>

definition isWhiteSpace :: "code_unit \<Rightarrow> bool" where
  "isWhiteSpace c \<longleftrightarrow>
     c = 0x0009 \<or> c = 0x000B \<or> c = 0x000C \<or> c = 0x0020 \<or> c = 0x00A0 \<or> c = 0xFEFF \<or>
     c = 0x1680 \<or> (0x2000 \<le> c \<and> c \<le> 0x200A) \<or> c = 0x202F \<or> c = 0x205F \<or>
     c = 0x3000 \<or> c = 0x000A \<or> c = 0x000D \<or> c = 0x2028 \<or> c = 0x2029"

definition trim :: "jsstring \<Rightarrow> jsstring" where
  "trim s = rev (dropWhile isWhiteSpace (rev (dropWhile isWhiteSpace s)))"

text \<open>
  \<open>s.split(sep)\<close> for a separator of one code unit: the pieces between the separators,
  the empty string giving one empty piece.
\<close>

fun split :: "jsstring \<Rightarrow> code_unit \<Rightarrow> jsstring list" where
  "split [] sep = [[]]"
| "split (c # cs) sep =
     (if c = sep then [] # split cs sep
      else (case split cs sep of [] \<Rightarrow> [[c]] | piece # pieces \<Rightarrow> (c # piece) # pieces))"

text \<open>\<open>xs[i]\<close>: reading an array out of range gives \<open>undefined\<close>, here \<open>None\<close>.\<close>

definition at_index :: "'a list \<Rightarrow> nat \<Rightarrow> 'a option" where
  "at_index xs i = (if i < length xs then Some (xs ! i) else None)"

text \<open>
  \<open>Number.prototype.toString\<close> on an integral number of magnitude below \<open>10^21\<close>, which
  every value of \<open>Date.now()\<close> is: the decimal digits, with a minus sign when negative.
\<close>

fun decimal :: "nat \<Rightarrow> jsstring" where
  "decimal n =
     (if n < 10 then [0x30 + of_nat n] else decimal (n div 10) @ [0x30 + of_nat (n mod 10)])"

declare decimal.simps [simp del]

definition toString :: "int \<Rightarrow> jsstring" where
  "toString n = (if n < 0 then 0x2D # decimal (nat (- n)) else decimal (nat n))"


section \<open>The types of \<open>types.ts\<close>\<close>

datatype AppMode = MOCKUP | IMAGE_GEN

datatype image_type = mockup | generation

record GeneratedImage =
  img_id :: jsstring
  img_url :: jsstring
  img_prompt :: jsstring
  img_createdAt :: int
  img_type :: image_type

record MockupPreset =
  preset_id :: jsstring
  preset_name :: jsstring
  preset_icon :: jsstring
  promptTemplate :: jsstring

datatype AspectRatio = SQUARE | PORTRAIT | LANDSCAPE | WIDE | TALL

text \<open>The string value each member of the \<open>AspectRatio\<close> enum stands for.\<close>

fun AspectRatio_value :: "AspectRatio \<Rightarrow> jsstring" where
  "AspectRatio_value SQUARE = str ''1:1''"
| "AspectRatio_value PORTRAIT = str ''3:4''"
| "AspectRatio_value LANDSCAPE = str ''4:3''"
| "AspectRatio_value WIDE = str ''16:9''"
| "AspectRatio_value TALL = str ''9:16''"


section \<open>The two remote endpoints\<close>

text \<open>
  Modelled from the spec: the request and response types of the generative-AI client
  library, which is not part of this repository. The image-edit endpoint answers with a
  list of candidates, each with a list of content parts, where an image part carries its
  base64 data; the text-to-image endpoint answers with a list of generated image objects,
  each carrying its image bytes. A field is optional here exactly where the code reads it
  through \<open>?.\<close> or a truthiness test.
\<close>

datatype Modality = MODALITY_UNSPECIFIED | TEXT | IMAGE | AUDIO

datatype request_part = InlineData "jsstring option" jsstring | Text jsstring

record GenerateContentParameters =
  content_model :: jsstring
  content_parts :: "request_part list"
  responseModalities :: "Modality list"

record Blob =
  data :: jsstring

record Part =
  inlineData :: "Blob option"
  text_of :: "jsstring option"

record Content =
  parts :: "Part list option"

record Candidate =
  content :: "Content option"

record GenerateContentResponse =
  candidates :: "Candidate list option"

record GenerateImagesParameters =
  images_model :: jsstring
  images_prompt :: jsstring
  numberOfImages :: nat
  outputMimeType :: jsstring
  aspectRatio :: jsstring

record Image =
  imageBytes :: jsstring

record GeneratedImageObject =
  image :: Image

record GenerateImagesResponse =
  generatedImages :: "GeneratedImageObject list option"

text \<open>
  What a call can throw: whatever the remote call rejects with (network, authentication,
  quota), or an \<open>Error\<close> object the service itself creates, with its message.
\<close>

datatype error = Rejected jsstring | Error jsstring

text \<open>
  What a call does besides changing the state, in the order it happens: requests sent to
  the two endpoints, lines written with \<open>console.error\<close>, blocking alerts, and files
  offered for download (target and file name).
\<close>

datatype console_arg = Msg jsstring | Thrown error

datatype effect =
    GenerateContent GenerateContentParameters
  | GenerateImages GenerateImagesParameters
  | ConsoleError "console_arg list"
  | Alert jsstring
  | Download jsstring jsstring


section \<open>The generation service\<close>

text \<open>
  The remote call is a parameter: a function from the request to what the awaited promise
  settles with, \<open>Inl\<close> a rejection and \<open>Inr\<close> the response. Each service function is
  split at its \<open>await\<close> into the request it builds and what it does with the answer.
\<close>

definition generateMockup_request ::
  "jsstring option \<Rightarrow> jsstring \<Rightarrow> jsstring \<Rightarrow> GenerateContentParameters" where
  "generateMockup_request base64Image mimeType prompt_text =
     \<lparr> content_model = str ''gemini-2.5-flash-image'',
       content_parts = [InlineData base64Image mimeType, Text prompt_text],
       responseModalities = [IMAGE] \<rparr>"

text \<open>
  The code after the \<open>await\<close>: \<open>response.candidates?.[0]?.content?.parts\<close>, then the test
  \<open>parts && parts[0]?.inlineData\<close>. A rejection and the service's own \<open>Error\<close> both reach
  the \<open>catch\<close>, which logs and throws the same value again.
\<close>

definition generateMockup_response ::
  "error + GenerateContentResponse \<Rightarrow> effect list \<times> (error + jsstring)" where
  "generateMockup_response settled =
     (let thrown = (\<lambda>e. ([ConsoleError [Msg (str ''Mockup generation failed:''), Thrown e]], Inl e))
      in case settled of
           Inl e \<Rightarrow> thrown e
         | Inr response \<Rightarrow>
            (let found_parts =
                   Option.bind (Option.bind (Option.bind (candidates response)
                     (\<lambda>cs. at_index cs 0)) content) parts
             in case Option.bind (Option.bind found_parts (\<lambda>ps. at_index ps 0)) inlineData of
                  Some blob \<Rightarrow> ([], Inr (str ''data:image/png;base64,'' @ data blob))
                | None \<Rightarrow> thrown (Error (str ''No image generated in response''))))"

definition generateMockup ::
  "(GenerateContentParameters \<Rightarrow> error + GenerateContentResponse) \<Rightarrow>
     jsstring option \<Rightarrow> jsstring \<Rightarrow> jsstring \<Rightarrow> effect list \<times> (error + jsstring)" where
  "generateMockup generateContent base64Image mimeType prompt_text =
     (let request = generateMockup_request base64Image mimeType prompt_text;
          (logged, outcome) = generateMockup_response (generateContent request)
      in (GenerateContent request # logged, outcome))"

text \<open>
  \<open>generateImage\<close>: the aspect ratio has the default \<open>AspectRatio.SQUARE\<close>, taken when the
  argument is left out (\<open>None\<close>).
\<close>

definition generateImage_request :: "jsstring \<Rightarrow> AspectRatio option \<Rightarrow> GenerateImagesParameters" where
  "generateImage_request prompt_text ratio =
     \<lparr> images_model = str ''imagen-4.0-generate-001'',
       images_prompt = prompt_text,
       numberOfImages = 1,
       outputMimeType = str ''image/jpeg'',
       aspectRatio = AspectRatio_value (case ratio of None \<Rightarrow> SQUARE | Some r \<Rightarrow> r) \<rparr>"

definition generateImage_response ::
  "error + GenerateImagesResponse \<Rightarrow> effect list \<times> (error + jsstring)" where
  "generateImage_response settled =
     (let thrown = (\<lambda>e. ([ConsoleError [Msg (str ''Image generation failed:''), Thrown e]], Inl e))
      in case settled of
           Inl e \<Rightarrow> thrown e
         | Inr response \<Rightarrow>
            (case generatedImages response of
               None \<Rightarrow> thrown (Error (str ''No image generated''))
             | Some [] \<Rightarrow> thrown (Error (str ''No image generated''))
             | Some (g # _) \<Rightarrow> ([], Inr (str ''data:image/jpeg;base64,'' @ imageBytes (image g)))))"

definition generateImage ::
  "(GenerateImagesParameters \<Rightarrow> error + GenerateImagesResponse) \<Rightarrow>
     jsstring \<Rightarrow> AspectRatio option \<Rightarrow> effect list \<times> (error + jsstring)" where
  "generateImage generateImages prompt_text ratio =
     (let request = generateImage_request prompt_text ratio;
          (logged, outcome) = generateImage_response (generateImages request)
      in (GenerateImages request # logged, outcome))"


section \<open>The application: catalogue and state\<close>

definition MOCKUP_PRESETS :: "MockupPreset list" where
  "MOCKUP_PRESETS =
     [ \<lparr> preset_id = str ''mug'', preset_name = str ''Ceramic Mug'', preset_icon = [0x2615],
         promptTemplate = str ''Place this logo realistically on a clean white ceramic coffee mug sitting on a wooden table. Professional product photography.'' \<rparr>,
       \<lparr> preset_id = str ''tshirt'', preset_name = str ''T-Shirt'', preset_icon = [0xD83D, 0xDC55],
         promptTemplate = str ''A high quality photo of a folded black cotton t-shirt with this design printed on the center chest. Studio lighting.'' \<rparr>,
       \<lparr> preset_id = str ''hoodie'', preset_name = str ''Hoodie'', preset_icon = [0xD83E, 0xDDE5],
         promptTemplate = str ''A model wearing a grey streetwear hoodie featuring this logo prominently on the front. Urban setting.'' \<rparr>,
       \<lparr> preset_id = str ''tote'', preset_name = str ''Tote Bag'', preset_icon = [0xD83D, 0xDC5C],
         promptTemplate = str ''A canvas tote bag hanging on a coat rack with this logo printed on the side. Natural lighting.'' \<rparr>,
       \<lparr> preset_id = str ''sticker'', preset_name = str ''Laptop Sticker'', preset_icon = [0xD83D, 0xDCBB],
         promptTemplate = str ''A die-cut vinyl sticker of this image stuck on a silver laptop cover. Close up macro shot.'' \<rparr>,
       \<lparr> preset_id = str ''sign'', preset_name = str ''Neon Sign'', preset_icon = [0x2728],
         promptTemplate = str ''A glowing neon sign on a brick wall in the shape and style of this image. Night time atmosphere.'' \<rparr> ]"

text \<open>The state the component holds with \<open>useState\<close>; \<open>null\<close> is \<open>None\<close>.\<close>

record App_state =
  mode :: AppMode
  uploadedImage :: "jsstring option"
  uploadedMimeType :: jsstring
  prompt :: jsstring
  isGenerating :: bool
  gallery :: "GeneratedImage list"
  selectedPreset :: jsstring
  selectedAspectRatio :: AspectRatio

definition initial_state :: App_state where
  "initial_state =
     \<lparr> mode = MOCKUP, uploadedImage = None, uploadedMimeType = str ''image/png'', prompt = [],
       isGenerating = False, gallery = [], selectedPreset = str ''mug'',
       selectedAspectRatio = SQUARE \<rparr>"


section \<open>The handlers\<close>

text \<open>
  \<open>handleFileUpload\<close>: with no file chosen nothing happens; otherwise the reader's result
  (\<open>null\<close> when the read failed) and the file's type are stored.
\<close>

definition handleFileUpload :: "(jsstring option \<times> jsstring) option \<Rightarrow> App_state \<Rightarrow> App_state" where
  "handleFileUpload file st =
     (case file of
        None \<Rightarrow> st
      | Some (result, file_type) \<Rightarrow> st\<lparr>uploadedImage := result, uploadedMimeType := file_type\<rparr>)"

text \<open>
  The prompt of a mockup request: the trimmed free text, and when that is empty the
  template of the preset found by its id, or the fixed sentence when none is found.
\<close>

definition finalPrompt :: "App_state \<Rightarrow> jsstring" where
  "finalPrompt st =
     (let trimmed = trim (prompt st)
      in if trimmed = [] then
           (case find (\<lambda>p. preset_id p = selectedPreset st) MOCKUP_PRESETS of
              Some preset \<Rightarrow> promptTemplate preset
            | None \<Rightarrow> str ''Place this design on a product.'')
         else trimmed)"

text \<open>
  The part of \<open>handleMockupGenerate\<close> that runs once the awaited service call has settled,
  applied to the state of that moment: \<open>setGallery\<close> takes an updater function, and
  \<open>finally\<close> clears the busy flag on either path. The two readings of \<open>Date.now()\<close> are
  parameters.
\<close>

definition handleMockupGenerate_settled ::
  "jsstring \<Rightarrow> int \<Rightarrow> int \<Rightarrow> error + jsstring \<Rightarrow> App_state \<Rightarrow> effect list \<times> App_state" where
  "handleMockupGenerate_settled final_prompt now1 now2 outcome st =
     (case outcome of
        Inr resultImage \<Rightarrow>
          (let newImage = \<lparr> img_id = toString now1, img_url = resultImage,
                             img_prompt = final_prompt, img_createdAt = now2, img_type = mockup \<rparr>
           in ([], st\<lparr>gallery := newImage # gallery st, isGenerating := False\<rparr>))
      | Inl err \<Rightarrow>
          ([ConsoleError [Thrown err], Alert (str ''Failed to generate mockup. Please try again.'')],
           st\<lparr>isGenerating := False\<rparr>))"

text \<open>
  \<open>handleMockupGenerate\<close> with no other event between the request and its answer. A
  missing or empty uploaded image returns at once; \<open>split(',')[1]\<close> is the piece after the
  first comma, undefined when there is no comma.
\<close>

definition handleMockupGenerate ::
  "(GenerateContentParameters \<Rightarrow> error + GenerateContentResponse) \<Rightarrow> int \<Rightarrow> int \<Rightarrow>
     App_state \<Rightarrow> effect list \<times> App_state" where
  "handleMockupGenerate generateContent now1 now2 st =
     (case uploadedImage st of
        None \<Rightarrow> ([], st)
      | Some uploaded \<Rightarrow>
          if uploaded = [] then ([], st)
          else
            (let busy = st\<lparr>isGenerating := True\<rparr>;
                 base64Data = at_index (split uploaded 0x2C) 1;
                 final_prompt = finalPrompt st;
                 (logged, outcome) =
                    generateMockup generateContent base64Data (uploadedMimeType st) final_prompt;
                 (shown, st') = handleMockupGenerate_settled final_prompt now1 now2 outcome busy
             in (logged @ shown, st')))"

definition handleImageGenerate_settled ::
  "jsstring \<Rightarrow> int \<Rightarrow> int \<Rightarrow> error + jsstring \<Rightarrow> App_state \<Rightarrow> effect list \<times> App_state" where
  "handleImageGenerate_settled prompt_text now1 now2 outcome st =
     (case outcome of
        Inr resultImage \<Rightarrow>
          (let newImage = \<lparr> img_id = toString now1, img_url = resultImage,
                             img_prompt = prompt_text, img_createdAt = now2, img_type = generation \<rparr>
           in ([], st\<lparr>gallery := newImage # gallery st, isGenerating := False\<rparr>))
      | Inl err \<Rightarrow>
          ([ConsoleError [Thrown err], Alert (str ''Failed to generate image. Please try again.'')],
           st\<lparr>isGenerating := False\<rparr>))"

definition handleImageGenerate ::
  "(GenerateImagesParameters \<Rightarrow> error + GenerateImagesResponse) \<Rightarrow> int \<Rightarrow> int \<Rightarrow>
     App_state \<Rightarrow> effect list \<times> App_state" where
  "handleImageGenerate generateImages now1 now2 st =
     (if trim (prompt st) = [] then ([], st)
      else
        (let busy = st\<lparr>isGenerating := True\<rparr>;
             (logged, outcome) =
                generateImage generateImages (prompt st) (Some (selectedAspectRatio st));
             (shown, st') = handleImageGenerate_settled (prompt st) now1 now2 outcome busy
         in (logged @ shown, st')))"

text \<open>
  \<open>downloadImage\<close>: a link to the url is added to the page, clicked and removed again, which
  offers the file under the name set as the link's \<open>download\<close> attribute.
\<close>

definition downloadImage :: "jsstring \<Rightarrow> jsstring \<Rightarrow> effect list" where
  "downloadImage url ident = [Download url (str ''mockup-ai-'' @ ident @ str ''.png'')]"

text \<open>
  The inline click and change handlers of the rendered page: the two mode buttons, a preset
  button, the prompt text area, an aspect-ratio button.
\<close>

definition switchMode :: "AppMode \<Rightarrow> App_state \<Rightarrow> App_state" where
  "switchMode m st = st\<lparr>mode := m, prompt := []\<rparr>"

definition clickPreset :: "MockupPreset \<Rightarrow> App_state \<Rightarrow> App_state" where
  "clickPreset preset st = st\<lparr>selectedPreset := preset_id preset, prompt := []\<rparr>"

definition changePrompt :: "jsstring \<Rightarrow> App_state \<Rightarrow> App_state" where
  "changePrompt v st = st\<lparr>prompt := v\<rparr>"

definition clickAspectRatio :: "AspectRatio \<Rightarrow> App_state \<Rightarrow> App_state" where
  "clickAspectRatio ratio st = st\<lparr>selectedAspectRatio := ratio\<rparr>"


section \<open>Sessions: sequences of user actions\<close>

text \<open>
  A user action carries what the environment contributes to it: the chosen file, the
  behaviour of the remote endpoint and the clock readings. The page renders one panel per
  mode, a preset button for each catalogue entry only, and disables a submit button while
  its input is missing or a request is running; an action on a control that is not there
  or is disabled does nothing.
\<close>

datatype action =
    ChooseFile "(jsstring option \<times> jsstring) option"
  | SwitchMode AppMode
  | ClickPreset MockupPreset
  | ChangePrompt jsstring
  | ClickAspectRatio AspectRatio
  | SubmitMockup "GenerateContentParameters \<Rightarrow> error + GenerateContentResponse" int int
  | SubmitGeneration "GenerateImagesParameters \<Rightarrow> error + GenerateImagesResponse" int int
  | ClickDownload GeneratedImage

fun available :: "action \<Rightarrow> App_state \<Rightarrow> bool" where
  "available (ChooseFile f) st = (mode st = MOCKUP)"
| "available (SwitchMode m) st = True"
| "available (ClickPreset p) st = (mode st = MOCKUP \<and> p \<in> set MOCKUP_PRESETS)"
| "available (ChangePrompt v) st = True"
| "available (ClickAspectRatio r) st = (mode st = IMAGE_GEN)"
| "available (SubmitMockup g n1 n2) st =
     (mode st = MOCKUP \<and> \<not> (uploadedImage st = None \<or> uploadedImage st = Some [] \<or> isGenerating st))"
| "available (SubmitGeneration g n1 n2) st =
     (mode st = IMAGE_GEN \<and> \<not> (trim (prompt st) = [] \<or> isGenerating st))"
| "available (ClickDownload item) st = (item \<in> set (gallery st))"

fun perform :: "action \<Rightarrow> App_state \<Rightarrow> effect list \<times> App_state" where
  "perform (ChooseFile f) st = ([], handleFileUpload f st)"
| "perform (SwitchMode m) st = ([], switchMode m st)"
| "perform (ClickPreset p) st = ([], clickPreset p st)"
| "perform (ChangePrompt v) st = ([], changePrompt v st)"
| "perform (ClickAspectRatio r) st = ([], clickAspectRatio r st)"
| "perform (SubmitMockup g n1 n2) st = handleMockupGenerate g n1 n2 st"
| "perform (SubmitGeneration g n1 n2) st = handleImageGenerate g n1 n2 st"
| "perform (ClickDownload item) st = (downloadImage (img_url item) (img_id item), st)"

definition act :: "action \<Rightarrow> App_state \<Rightarrow> effect list \<times> App_state" where
  "act a st = (if available a st then perform a st else ([], st))"

fun session :: "action list \<Rightarrow> App_state \<Rightarrow> effect list \<times> App_state" where
  "session [] st = ([], st)"
| "session (a # as) st =
     (let (effects, st') = act a st; (more, st'') = session as st' in (effects @ more, st''))"


section \<open>The image part of a response, as the specification words it\<close>

text \<open>
  Following the specification's words, not the code: the first part of the first candidate
  that is an inline image, wherever it stands in the list of parts.
\<close>

definition spec_first_image_part :: "GenerateContentResponse \<Rightarrow> Blob option" where
  "spec_first_image_part response =
     Option.bind (Option.bind (Option.bind (Option.bind (Option.bind (candidates response)
       (\<lambda>cs. at_index cs 0)) content) parts)
       (find (\<lambda>p. inlineData p \<noteq> None))) inlineData"


section \<open>Concrete endpoints, responses and states\<close>

text \<open>
  An endpoint that answers every request with the same response, and one that rejects every
  request; the responses, gallery entries, states and sessions on which the theorems below
  are instantiated.
\<close>

definition answering :: "'resp \<Rightarrow> 'req \<Rightarrow> error + 'resp" where
  "answering response request = Inr response"

definition rejecting :: "error \<Rightarrow> 'req \<Rightarrow> error + 'resp" where
  "rejecting e request = Inl e"

definition quota_exceeded :: error where
  "quota_exceeded = Rejected (str ''429 RESOURCE_EXHAUSTED'')"

definition text_then_image :: GenerateContentResponse where
  "text_then_image =
     \<lparr> candidates = Some [ \<lparr> content = Some \<lparr> parts = Some
         [ \<lparr> inlineData = None, text_of = Some (str ''Here is your mockup.'') \<rparr>,
           \<lparr> inlineData = Some \<lparr> data = str ''iVBORw0KGgo='' \<rparr>, text_of = None \<rparr> ] \<rparr> \<rparr> ] \<rparr>"

definition image_only :: GenerateContentResponse where
  "image_only =
     \<lparr> candidates = Some [ \<lparr> content = Some \<lparr> parts = Some
         [ \<lparr> inlineData = Some \<lparr> data = str ''iVBORw0KGgo='' \<rparr>, text_of = None \<rparr> ] \<rparr> \<rparr> ] \<rparr>"

definition no_parts :: GenerateContentResponse where
  "no_parts = \<lparr> candidates = Some [ \<lparr> content = Some \<lparr> parts = Some [] \<rparr> \<rparr> ] \<rparr>"

definition one_jpeg :: GenerateImagesResponse where
  "one_jpeg = \<lparr> generatedImages = Some [ \<lparr> image = \<lparr> imageBytes = str ''/9j/4AAQSkZJRg=='' \<rparr> \<rparr> ] \<rparr>"

definition no_images :: GenerateImagesResponse where
  "no_images = \<lparr> generatedImages = Some [] \<rparr>"

definition earlier_entry :: GeneratedImage where
  "earlier_entry =
     \<lparr> img_id = str ''1729999999000'', img_url = str ''data:image/png;base64,BBBB'',
       img_prompt = str ''Place this design on a product.'', img_createdAt = 1729999999000,
       img_type = mockup \<rparr>"

definition logo_uploaded :: App_state where
  "logo_uploaded = initial_state\<lparr>uploadedImage := Some (str ''data:image/png;base64,AAAA'')\<rparr>"

definition padded_prompt :: App_state where
  "padded_prompt = logo_uploaded\<lparr>prompt := str '' red car'', selectedPreset := str ''hoodie''\<rparr>"

definition vintage_filter :: App_state where
  "vintage_filter =
     logo_uploaded\<lparr>prompt := str ''Add a vintage filter to this image'', selectedPreset := str ''hoodie''\<rparr>"

definition unknown_preset :: App_state where
  "unknown_preset = logo_uploaded\<lparr>selectedPreset := str ''cap''\<rparr>"

definition skyline_prompt :: App_state where
  "skyline_prompt =
     initial_state\<lparr>mode := IMAGE_GEN, prompt := str ''a city skyline '', selectedAspectRatio := WIDE\<rparr>"

definition failed_before :: App_state where
  "failed_before = logo_uploaded\<lparr>gallery := [earlier_entry]\<rparr>"

definition skyline_again :: App_state where
  "skyline_again = skyline_prompt\<lparr>gallery := [earlier_entry]\<rparr>"

definition two_submissions :: "action list" where
  "two_submissions =
     [ SubmitMockup (answering image_only) 1730000000000 1730000000001,
       SwitchMode IMAGE_GEN,
       ChangePrompt (str ''a cat''),
       SubmitGeneration (answering one_jpeg) 1730000000002 1730000000003 ]"


section \<open>Strings\<close>

lemma unat_of_char: "unat (of_char c :: 16 word) = of_char c"
proof (rule of_nat_inverse)
  show "word_of_nat (of_char c) = (of_char c :: 16 word)"
    by (simp only: of_nat_of_char)
  show "(of_char c :: nat) < 2 ^ LENGTH(16)"
    by (rule less_trans [OF nat_of_char_less_256]) simp
qed

lemma of_char_word_eq_iff: "(of_char c :: 16 word) = of_char d \<longleftrightarrow> c = d"
proof
  assume "(of_char c :: 16 word) = of_char d"
  then have "unat (of_char c :: 16 word) = unat (of_char d :: 16 word)" by simp
  then have "(of_char c :: nat) = of_char d" by (simp only: unat_of_char)
  then show "c = d" by simp
qed simp

lemma str_eq_iff: "str a = str b \<longleftrightarrow> a = b"
proof -
  have "inj (of_char :: char \<Rightarrow> 16 word)"
    by (rule injI) (simp add: of_char_word_eq_iff)
  then show ?thesis by (simp add: str_def inj_map_eq_map)
qed

lemma str_Nil_iff: "str a = [] \<longleftrightarrow> a = []"
  by (simp add: str_def)

lemma str_append: "str a @ str b = str (a @ b)"
  by (simp add: str_def)

lemma trim_Nil: "trim [] = []"
  by (simp add: trim_def)

lemma trim_unpadded:
  "s \<noteq> [] \<Longrightarrow> \<not> isWhiteSpace (hd s) \<Longrightarrow> \<not> isWhiteSpace (last s) \<Longrightarrow> trim s = s"
proof -
  assume ne: "s \<noteq> []" and h: "\<not> isWhiteSpace (hd s)" and l: "\<not> isWhiteSpace (last s)"
  from ne h have a: "dropWhile isWhiteSpace s = s"
    by (cases s) simp_all
  from ne l have b: "dropWhile isWhiteSpace (rev s) = rev s"
    by (cases "rev s") (simp_all add: last_rev [symmetric] hd_rev)
  show ?thesis by (simp add: trim_def a b)
qed

lemma trim_a_cat: "trim (str ''a cat'') = str ''a cat''"
  by (simp add: trim_def str_def isWhiteSpace_def)

lemma trim_skyline: "trim (str ''a city skyline '') = str ''a city skyline''"
  by (simp add: trim_def str_def isWhiteSpace_def)

lemma split_data_uri: "at_index (split (str ''data:image/png;base64,AAAA'') 0x2C) 1 = Some (str ''AAAA'')"
  by (simp add: str_def at_index_def)

lemma toString_sample: "toString 1730000000000 = str ''1730000000000''"
  by (simp add: toString_def decimal.simps str_def)


section \<open>The service functions\<close>

lemma generateMockup_response_image_first:
  "candidates response = Some (c # cs) \<Longrightarrow> content c = Some ct \<Longrightarrow> parts ct = Some (p # ps) \<Longrightarrow>
   inlineData p = Some blob \<Longrightarrow>
   generateMockup_response (Inr response) = ([], Inr (str ''data:image/png;base64,'' @ data blob))"
  by (simp add: generateMockup_response_def at_index_def)

lemma generateMockup_response_rejected:
  "snd (generateMockup_response (Inl e)) = Inl e"
  by (simp add: generateMockup_response_def)

lemma generateMockup_snd:
  "snd (generateMockup g b m p) = snd (generateMockup_response (g (generateMockup_request b m p)))"
  by (simp add: generateMockup_def Let_def split: prod.splits)

lemma generateMockup_fst:
  "fst (generateMockup g b m p) =
     GenerateContent (generateMockup_request b m p) # fst (generateMockup_response (g (generateMockup_request b m p)))"
  by (simp add: generateMockup_def Let_def split: prod.splits)

lemma generateMockup_image_only:
  "generateMockup (answering image_only) b m p =
     ([GenerateContent (generateMockup_request b m p)], Inr (str ''data:image/png;base64,'' @ str ''iVBORw0KGgo=''))"
  by (simp add: generateMockup_def answering_def image_only_def
        generateMockup_response_image_first [where blob = "\<lparr>data = str ''iVBORw0KGgo=''\<rparr>"])

lemma generateImage_snd:
  "snd (generateImage g p r) = snd (generateImage_response (g (generateImage_request p r)))"
  by (simp add: generateImage_def Let_def split: prod.splits)

lemma generateImage_fst:
  "fst (generateImage g p r) =
     GenerateImages (generateImage_request p r) # fst (generateImage_response (g (generateImage_request p r)))"
  by (simp add: generateImage_def Let_def split: prod.splits)

lemma generateImage_response_logs:
  "\<forall>x\<in>set (fst (generateImage_response settled)). \<exists>args. x = ConsoleError args"
  by (simp add: generateImage_response_def Let_def split: sum.splits option.splits list.splits)

lemma generateImage_response_first:
  "generatedImages response = Some (i # rest) \<Longrightarrow>
   generateImage_response (Inr response) = ([], Inr (str ''data:image/jpeg;base64,'' @ imageBytes (image i)))"
  by (simp add: generateImage_response_def)

lemma generateImage_response_none:
  "generatedImages response = None \<or> generatedImages response = Some [] \<Longrightarrow>
   snd (generateImage_response (Inr response)) = Inl (Error (str ''No image generated''))"
  by (auto simp: generateImage_response_def)

lemma generateImage_response_rejected: "snd (generateImage_response (Inl e)) = Inl e"
  by (simp add: generateImage_response_def)

lemma generateImage_response_jpeg:
  "snd (generateImage_response settled) = Inr url \<Longrightarrow> prefix (str ''data:image/jpeg;base64,'') url"
  by (auto simp: generateImage_response_def Let_def split: sum.splits option.splits list.splits)

lemma generateImage_one_jpeg:
  "generateImage (answering one_jpeg) p r =
     ([GenerateImages (generateImage_request p r)], Inr (str ''data:image/jpeg;base64,'' @ str ''/9j/4AAQSkZJRg==''))"
  by (simp add: generateImage_def answering_def one_jpeg_def
        generateImage_response_first [where i = "\<lparr>image = \<lparr>imageBytes = str ''/9j/4AAQSkZJRg==''\<rparr>\<rparr>"])


section \<open>The prompt of a mockup request\<close>

lemma find_preset:
  assumes "p \<in> set MOCKUP_PRESETS"
  shows "find (\<lambda>q. preset_id q = preset_id p) MOCKUP_PRESETS = Some p"
proof -
  have d: "distinct (map preset_id MOCKUP_PRESETS)"
    unfolding MOCKUP_PRESETS_def by (simp add: str_eq_iff)
  have g: "distinct (map f xs) \<Longrightarrow> x \<in> set xs \<Longrightarrow> find (\<lambda>q. f q = f x) xs = Some x" for f :: "'a \<Rightarrow> 'b" and xs x
    by (induction xs) auto
  show ?thesis using d assms by (rule g)
qed

lemma finalPrompt_typed: "trim (prompt st) \<noteq> [] \<Longrightarrow> finalPrompt st = trim (prompt st)"
  by (simp add: finalPrompt_def Let_def)

lemma finalPrompt_preset:
  "trim (prompt st) = [] \<Longrightarrow> p \<in> set MOCKUP_PRESETS \<Longrightarrow> preset_id p = selectedPreset st \<Longrightarrow>
   finalPrompt st = promptTemplate p"
  using find_preset [of p] by (simp add: finalPrompt_def Let_def)

lemma finalPrompt_fallback:
  "trim (prompt st) = [] \<Longrightarrow> \<forall>p\<in>set MOCKUP_PRESETS. preset_id p \<noteq> selectedPreset st \<Longrightarrow>
   finalPrompt st = str ''Place this design on a product.''"
proof -
  assume empty: "trim (prompt st) = []"
    and none: "\<forall>p\<in>set MOCKUP_PRESETS. preset_id p \<noteq> selectedPreset st"
  from none have "find (\<lambda>p. preset_id p = selectedPreset st) MOCKUP_PRESETS = None"
    by (simp only: find_None_iff) blast
  with empty show ?thesis by (simp add: finalPrompt_def Let_def)
qed

lemma finalPrompt_padded: "finalPrompt padded_prompt = str ''red car''"
  by (simp add: finalPrompt_def padded_prompt_def logo_uploaded_def initial_state_def trim_def
        str_def isWhiteSpace_def)


section \<open>The submit handlers\<close>

lemma handleMockupGenerate_accepted:
  "uploadedImage st = Some u \<Longrightarrow> u \<noteq> [] \<Longrightarrow>
   handleMockupGenerate g n1 n2 st =
     (fst (generateMockup g (at_index (split u 0x2C) 1) (uploadedMimeType st) (finalPrompt st))
        @ fst (handleMockupGenerate_settled (finalPrompt st) n1 n2
                 (snd (generateMockup g (at_index (split u 0x2C) 1) (uploadedMimeType st) (finalPrompt st)))
                 (st\<lparr>isGenerating := True\<rparr>)),
      snd (handleMockupGenerate_settled (finalPrompt st) n1 n2
                 (snd (generateMockup g (at_index (split u 0x2C) 1) (uploadedMimeType st) (finalPrompt st)))
                 (st\<lparr>isGenerating := True\<rparr>)))"
  by (simp add: handleMockupGenerate_def Let_def split: prod.splits)

lemma handleMockupGenerate_rejected:
  "uploadedImage st = None \<or> uploadedImage st = Some [] \<Longrightarrow> handleMockupGenerate g n1 n2 st = ([], st)"
  by (auto simp: handleMockupGenerate_def)

lemma handleImageGenerate_accepted:
  "trim (prompt st) \<noteq> [] \<Longrightarrow>
   handleImageGenerate g n1 n2 st =
     (fst (generateImage g (prompt st) (Some (selectedAspectRatio st)))
        @ fst (handleImageGenerate_settled (prompt st) n1 n2
                 (snd (generateImage g (prompt st) (Some (selectedAspectRatio st))))
                 (st\<lparr>isGenerating := True\<rparr>)),
      snd (handleImageGenerate_settled (prompt st) n1 n2
                 (snd (generateImage g (prompt st) (Some (selectedAspectRatio st))))
                 (st\<lparr>isGenerating := True\<rparr>)))"
  by (simp add: handleImageGenerate_def Let_def split: prod.splits)

lemma handleImageGenerate_rejected:
  "trim (prompt st) = [] \<Longrightarrow> handleImageGenerate g n1 n2 st = ([], st)"
  by (simp add: handleImageGenerate_def)

lemma mockup_settled_busy: "isGenerating (snd (handleMockupGenerate_settled fp n1 n2 outcome s)) = False"
  by (simp add: handleMockupGenerate_settled_def Let_def split: sum.splits)

lemma image_settled_busy: "isGenerating (snd (handleImageGenerate_settled fp n1 n2 outcome s)) = False"
  by (simp add: handleImageGenerate_settled_def Let_def split: sum.splits)

lemma mockup_settled_failure: "gallery (snd (handleMockupGenerate_settled fp n1 n2 (Inl e) s)) = gallery s"
  by (simp add: handleMockupGenerate_settled_def)

lemma image_settled_failure: "gallery (snd (handleImageGenerate_settled fp n1 n2 (Inl e) s)) = gallery s"
  by (simp add: handleImageGenerate_settled_def)

lemma mockup_settled_success:
  "gallery (snd (handleMockupGenerate_settled fp n1 n2 (Inr url) s)) =
     \<lparr> img_id = toString n1, img_url = url, img_prompt = fp, img_createdAt = n2, img_type = mockup \<rparr> # gallery s"
  by (simp add: handleMockupGenerate_settled_def Let_def)

lemma image_settled_success:
  "gallery (snd (handleImageGenerate_settled fp n1 n2 (Inr url) s)) =
     \<lparr> img_id = toString n1, img_url = url, img_prompt = fp, img_createdAt = n2, img_type = generation \<rparr> # gallery s"
  by (simp add: handleImageGenerate_settled_def Let_def)

lemma mockup_settled_gallery:
  "gallery (snd (handleMockupGenerate_settled fp n1 n2 outcome s)) = gallery s \<or>
   (\<exists>new. gallery (snd (handleMockupGenerate_settled fp n1 n2 outcome s)) = new # gallery s)"
  by (cases outcome) (simp_all add: mockup_settled_failure mockup_settled_success)

lemma image_settled_gallery:
  "gallery (snd (handleImageGenerate_settled fp n1 n2 outcome s)) = gallery s \<or>
   (\<exists>new. gallery (snd (handleImageGenerate_settled fp n1 n2 outcome s)) = new # gallery s)"
  by (cases outcome) (simp_all add: image_settled_failure image_settled_success)

lemma handleMockupGenerate_gallery:
  "gallery (snd (handleMockupGenerate g n1 n2 st)) = gallery st \<or>
   (\<exists>new. gallery (snd (handleMockupGenerate g n1 n2 st)) = new # gallery st)"
proof (cases "uploadedImage st = None \<or> uploadedImage st = Some []")
  case True
  then show ?thesis by (simp add: handleMockupGenerate_rejected)
next
  case False
  then obtain u where u: "uploadedImage st = Some u" "u \<noteq> []" by auto
  show ?thesis
    using mockup_settled_gallery [of "finalPrompt st" n1 n2 _ "st\<lparr>isGenerating := True\<rparr>"]
    by (simp add: handleMockupGenerate_accepted [OF u])
qed

lemma handleImageGenerate_gallery:
  "gallery (snd (handleImageGenerate g n1 n2 st)) = gallery st \<or>
   (\<exists>new. gallery (snd (handleImageGenerate g n1 n2 st)) = new # gallery st)"
proof (cases "trim (prompt st) = []")
  case True
  then show ?thesis by (simp add: handleImageGenerate_rejected)
next
  case False
  show ?thesis
    using image_settled_gallery [of "prompt st" n1 n2 _ "st\<lparr>isGenerating := True\<rparr>"]
    by (simp add: handleImageGenerate_accepted [OF False])
qed

lemma handleMockupGenerate_sends:
  "uploadedImage st = Some u \<Longrightarrow> u \<noteq> [] \<Longrightarrow>
   \<exists>logged. fst (handleMockupGenerate g n1 n2 st) =
      GenerateContent (generateMockup_request (at_index (split u 0x2C) 1) (uploadedMimeType st) (finalPrompt st)) # logged"
  by (simp add: handleMockupGenerate_accepted generateMockup_fst)

lemma handleMockupGenerate_success:
  "uploadedImage st = Some u \<Longrightarrow> u \<noteq> [] \<Longrightarrow>
   snd (generateMockup g (at_index (split u 0x2C) 1) (uploadedMimeType st) (finalPrompt st)) = Inr url \<Longrightarrow>
   gallery (snd (handleMockupGenerate g n1 n2 st)) =
     \<lparr> img_id = toString n1, img_url = url, img_prompt = finalPrompt st, img_createdAt = n2,
       img_type = mockup \<rparr> # gallery st"
  by (simp add: handleMockupGenerate_accepted mockup_settled_success)

lemma handleImageGenerate_success:
  "trim (prompt st) \<noteq> [] \<Longrightarrow>
   snd (generateImage g (prompt st) (Some (selectedAspectRatio st))) = Inr url \<Longrightarrow>
   gallery (snd (handleImageGenerate g n1 n2 st)) =
     \<lparr> img_id = toString n1, img_url = url, img_prompt = prompt st, img_createdAt = n2,
       img_type = generation \<rparr> # gallery st"
  by (simp add: handleImageGenerate_accepted image_settled_success)


section \<open>Sessions\<close>

lemma perform_gallery:
  "gallery (snd (perform a st)) = gallery st \<or> (\<exists>new. gallery (snd (perform a st)) = new # gallery st)"
proof (cases a)
  case (ChooseFile f)
  then show ?thesis by (simp add: handleFileUpload_def split: option.splits prod.splits)
next
  case (SubmitMockup g n1 n2)
  then show ?thesis using handleMockupGenerate_gallery [of g n1 n2 st] by simp
next
  case (SubmitGeneration g n1 n2)
  then show ?thesis using handleImageGenerate_gallery [of g n1 n2 st] by simp
qed (simp_all add: switchMode_def clickPreset_def changePrompt_def clickAspectRatio_def)

lemma act_gallery:
  "gallery (snd (act a st)) = gallery st \<or> (\<exists>new. gallery (snd (act a st)) = new # gallery st)"
  using perform_gallery [of a st] by (simp add: act_def)

lemma session_Cons_snd: "snd (session (a # as) st) = snd (session as (snd (act a st)))"
  by (simp add: Let_def case_prod_beta)

lemma session_gallery_suffix: "suffix (gallery st) (gallery (snd (session as st)))"
proof (induction as arbitrary: st)
  case Nil
  show ?case by simp
next
  case (Cons a as)
  have step: "suffix (gallery st) (gallery (snd (act a st)))"
    using act_gallery [of a st] by (auto simp: suffix_Cons)
  have "suffix (gallery (snd (act a st))) (gallery (snd (session as (snd (act a st)))))"
    by (rule Cons.IH)
  with step have "suffix (gallery st) (gallery (snd (session as (snd (act a st)))))"
    by (rule suffix_order.trans)
  then show ?case by (simp only: session_Cons_snd)
qed


section \<open>The concrete states\<close>

lemma vintage_fields:
  "uploadedImage vintage_filter = Some (str ''data:image/png;base64,AAAA'')"
  "prompt vintage_filter = str ''Add a vintage filter to this image''"
  "uploadedMimeType vintage_filter = str ''image/png''"
  "gallery vintage_filter = []"
  by (simp_all add: vintage_filter_def logo_uploaded_def initial_state_def)

lemma failed_before_fields:
  "uploadedImage failed_before = Some (str ''data:image/png;base64,AAAA'')"
  "gallery failed_before = [earlier_entry]"
  "prompt failed_before = []"
  "selectedPreset failed_before = str ''mug''"
  "uploadedMimeType failed_before = str ''image/png''"
  "mode failed_before = MOCKUP"
  "isGenerating failed_before = False"
  by (simp_all add: failed_before_def logo_uploaded_def initial_state_def)

lemma skyline_fields:
  "prompt skyline_prompt = str ''a city skyline ''"
  "selectedAspectRatio skyline_prompt = WIDE"
  "gallery skyline_prompt = []"
  by (simp_all add: skyline_prompt_def initial_state_def)

lemma two_submissions_gallery:
  "gallery (snd (session two_submissions failed_before)) =
     [ \<lparr> img_id = toString 1730000000002, img_url = str ''data:image/jpeg;base64,/9j/4AAQSkZJRg=='',
         img_prompt = str ''a cat'', img_createdAt = 1730000000003, img_type = generation \<rparr>,
       \<lparr> img_id = toString 1730000000000, img_url = str ''data:image/png;base64,iVBORw0KGgo='',
         img_prompt = finalPrompt failed_before, img_createdAt = 1730000000001, img_type = mockup \<rparr>,
       earlier_entry ]"
proof -
  have ne: "str ''data:image/png;base64,AAAA'' \<noteq> []" by (simp add: str_Nil_iff)
  have ne': "str ''a cat'' \<noteq> []" by (simp add: str_Nil_iff)
  show ?thesis
    by (simp add: two_submissions_def act_def Let_def failed_before_fields ne ne'
          handleMockupGenerate_accepted [OF failed_before_fields(1) ne]
          handleImageGenerate_accepted generateMockup_image_only generateImage_one_jpeg
          handleMockupGenerate_settled_def handleImageGenerate_settled_def
          switchMode_def changePrompt_def trim_a_cat str_append del: split.simps)
qed



section \<open>The claims\<close>

text \<open>
  C1. The claim: \<open>generateMockup\<close> extracts the first inline image part of the first candidate
  and fails exactly when the response has no image part or the remote call errors. The code
  tests only the part at index 0. On a response whose first candidate holds a text part
  followed by an image part, the first inline image part exists, and \<open>generateMockup\<close>
  throws the error with the message "No image generated in response"; on the response with
  the same image part alone it returns the data URI of that image.
\<close>

theorem generateMockup_misses_later_image_part:
  "spec_first_image_part text_then_image = Some \<lparr> data = str ''iVBORw0KGgo='' \<rparr> \<and>
   snd (generateMockup (answering text_then_image) (Some (str ''AAAA'')) (str ''image/png'') (str ''mug''))
     = Inl (Error (str ''No image generated in response'')) \<and>
   spec_first_image_part image_only = Some \<lparr> data = str ''iVBORw0KGgo='' \<rparr> \<and>
   snd (generateMockup (answering image_only) (Some (str ''AAAA'')) (str ''image/png'') (str ''mug''))
     = Inr (str ''data:image/png;base64,'' @ str ''iVBORw0KGgo='')"
  by (simp add: spec_first_image_part_def text_then_image_def image_only_def at_index_def
        generateMockup_snd generateMockup_response_def answering_def)

text \<open>
  C2, as stated, fails. With the free text " red car" (a leading space) and the preset
  \<open>hoodie\<close>, the free text is not empty, yet the prompt sent to the image-edit call and
  stored in the new gallery entry is "red car", which is not the free text verbatim.
\<close>

theorem verbatim_prompt_counterexample:
  "prompt padded_prompt \<noteq> [] \<and> finalPrompt padded_prompt \<noteq> prompt padded_prompt \<and>
   handleMockupGenerate (answering image_only) 1730000000000 1730000000001 padded_prompt =
     ([GenerateContent (generateMockup_request (Some (str ''AAAA'')) (str ''image/png'') (str ''red car''))],
      padded_prompt\<lparr>gallery :=
        [\<lparr> img_id = str ''1730000000000'', img_url = str ''data:image/png;base64,iVBORw0KGgo='',
            img_prompt = str ''red car'', img_createdAt = 1730000000001, img_type = mockup \<rparr>]\<rparr>)"
proof -
  have u: "uploadedImage padded_prompt = Some (str ''data:image/png;base64,AAAA'')"
    and ne: "str ''data:image/png;base64,AAAA'' \<noteq> []"
    and p: "prompt padded_prompt = str '' red car''"
    and m: "uploadedMimeType padded_prompt = str ''image/png''"
    and g: "gallery padded_prompt = []"
    and b: "isGenerating padded_prompt = False"
    by (simp_all add: padded_prompt_def logo_uploaded_def initial_state_def str_Nil_iff)
  have "handleMockupGenerate (answering image_only) 1730000000000 1730000000001 padded_prompt =
     ([GenerateContent (generateMockup_request (Some (str ''AAAA'')) (str ''image/png'') (str ''red car''))],
      padded_prompt\<lparr>gallery :=
        [\<lparr> img_id = str ''1730000000000'', img_url = str ''data:image/png;base64,iVBORw0KGgo='',
            img_prompt = str ''red car'', img_createdAt = 1730000000001, img_type = mockup \<rparr>]\<rparr>)"
    using b
    by (simp add: handleMockupGenerate_accepted [OF u ne] finalPrompt_padded split_data_uri [unfolded One_nat_def] m g
          generateMockup_image_only handleMockupGenerate_settled_def toString_sample str_append)
  moreover have "prompt padded_prompt \<noteq> []" by (simp add: p str_Nil_iff)
  moreover have "finalPrompt padded_prompt \<noteq> prompt padded_prompt"
    by (simp add: finalPrompt_padded p str_eq_iff)
  ultimately show ?thesis by blast
qed

text \<open>
  C2, amended. For every mockup submission with an uploaded image, the prompt sent to the
  image-edit call is the one stored in the new gallery entry, and it is: the free-text
  prompt with leading and trailing white space removed, when that is not empty (so a free
  text that neither starts nor ends with white space is used verbatim); and otherwise, the
  free text being empty or white space only, the template of the catalogue preset whose id
  is selected. The preset template is never concatenated with the free text.
\<close>

theorem mockup_prompt_trimmed_override:
  assumes "uploadedImage st = Some u" and "u \<noteq> []"
  shows
   "(\<exists>logged. fst (handleMockupGenerate g n1 n2 st) =
        GenerateContent (generateMockup_request (at_index (split u 0x2C) 1) (uploadedMimeType st)
          (finalPrompt st)) # logged) \<and>
    (\<forall>url. snd (generateMockup g (at_index (split u 0x2C) 1) (uploadedMimeType st) (finalPrompt st)) = Inr url
       \<longrightarrow> gallery (snd (handleMockupGenerate g n1 n2 st)) =
             \<lparr> img_id = toString n1, img_url = url, img_prompt = finalPrompt st, img_createdAt = n2,
               img_type = mockup \<rparr> # gallery st) \<and>
    (trim (prompt st) \<noteq> [] \<longrightarrow> finalPrompt st = trim (prompt st)) \<and>
    (prompt st \<noteq> [] \<and> \<not> isWhiteSpace (hd (prompt st)) \<and> \<not> isWhiteSpace (last (prompt st))
       \<longrightarrow> finalPrompt st = prompt st) \<and>
    (trim (prompt st) = [] \<longrightarrow>
       (\<forall>p\<in>set MOCKUP_PRESETS. preset_id p = selectedPreset st \<longrightarrow> finalPrompt st = promptTemplate p))"
proof (intro conjI allI impI ballI)
  show "\<exists>logged. fst (handleMockupGenerate g n1 n2 st) =
        GenerateContent (generateMockup_request (at_index (split u 0x2C) 1) (uploadedMimeType st)
          (finalPrompt st)) # logged"
    using assms by (rule handleMockupGenerate_sends)
next
  fix url
  assume "snd (generateMockup g (at_index (split u 0x2C) 1) (uploadedMimeType st) (finalPrompt st)) = Inr url"
  with assms show "gallery (snd (handleMockupGenerate g n1 n2 st)) =
             \<lparr> img_id = toString n1, img_url = url, img_prompt = finalPrompt st, img_createdAt = n2,
               img_type = mockup \<rparr> # gallery st"
    by (rule handleMockupGenerate_success)
next
  assume "trim (prompt st) \<noteq> []"
  then show "finalPrompt st = trim (prompt st)" by (rule finalPrompt_typed)
next
  assume a: "prompt st \<noteq> [] \<and> \<not> isWhiteSpace (hd (prompt st)) \<and> \<not> isWhiteSpace (last (prompt st))"
  then have "trim (prompt st) = prompt st" by (simp add: trim_unpadded)
  with a show "finalPrompt st = prompt st" by (simp add: finalPrompt_typed)
next
  fix p
  assume "trim (prompt st) = []" "p \<in> set MOCKUP_PRESETS" "preset_id p = selectedPreset st"
  then show "finalPrompt st = promptTemplate p" by (rule finalPrompt_preset)
qed

text \<open>
  C2, amended, on three submissions. The specification's example, the free text "Add a
  vintage filter to this image" with the preset \<open>hoodie\<close> selected, gives the free text
  exactly, sent and stored; the free text " red car" gives "red car"; and the
  specification's other example, an empty free text with the preset \<open>mug\<close> selected, gives
  the mug template.
\<close>

theorem mockup_prompt_trimmed_override_witness:
  "uploadedImage vintage_filter = Some (str ''data:image/png;base64,AAAA'') \<and>
   str ''data:image/png;base64,AAAA'' \<noteq> [] \<and>
   finalPrompt vintage_filter = str ''Add a vintage filter to this image'' \<and>
   gallery (snd (handleMockupGenerate (answering image_only) 1730000000000 1730000000001 vintage_filter)) =
     [\<lparr> img_id = str ''1730000000000'', img_url = str ''data:image/png;base64,iVBORw0KGgo='',
        img_prompt = str ''Add a vintage filter to this image'', img_createdAt = 1730000000001,
        img_type = mockup \<rparr>] \<and>
   uploadedImage padded_prompt = Some (str ''data:image/png;base64,AAAA'') \<and>
   trim (prompt padded_prompt) \<noteq> [] \<and>
   finalPrompt padded_prompt = str ''red car'' \<and>
   uploadedImage logo_uploaded = Some (str ''data:image/png;base64,AAAA'') \<and>
   trim (prompt logo_uploaded) = [] \<and>
   MOCKUP_PRESETS ! 0 \<in> set MOCKUP_PRESETS \<and>
   preset_id (MOCKUP_PRESETS ! 0) = selectedPreset logo_uploaded \<and>
   finalPrompt logo_uploaded =
     str ''Place this logo realistically on a clean white ceramic coffee mug sitting on a wooden table. Professional product photography.''"
proof -
  have ne: "str ''data:image/png;base64,AAAA'' \<noteq> []" by (simp add: str_Nil_iff)
  have unpadded: "prompt vintage_filter \<noteq> [] \<and> \<not> isWhiteSpace (hd (prompt vintage_filter)) \<and>
      \<not> isWhiteSpace (last (prompt vintage_filter))"
    by (simp add: vintage_fields str_def isWhiteSpace_def)
  note verbatim = mockup_prompt_trimmed_override [OF vintage_fields(1) ne,
      of "answering image_only" 1730000000000 1730000000001]
  from unpadded verbatim have fp: "finalPrompt vintage_filter = str ''Add a vintage filter to this image''"
    by (simp add: vintage_fields)
  from verbatim have "gallery (snd (handleMockupGenerate (answering image_only) 1730000000000 1730000000001 vintage_filter)) =
     \<lparr> img_id = toString 1730000000000, img_url = str ''data:image/png;base64,'' @ str ''iVBORw0KGgo='',
        img_prompt = finalPrompt vintage_filter, img_createdAt = 1730000000001,
        img_type = mockup \<rparr> # gallery vintage_filter"
    by (simp add: generateMockup_image_only)
  then have stored: "gallery (snd (handleMockupGenerate (answering image_only) 1730000000000 1730000000001 vintage_filter)) =
     [\<lparr> img_id = str ''1730000000000'', img_url = str ''data:image/png;base64,iVBORw0KGgo='',
        img_prompt = str ''Add a vintage filter to this image'', img_createdAt = 1730000000001,
        img_type = mockup \<rparr>]"
    by (simp add: fp vintage_fields toString_sample str_append)
  have pu: "uploadedImage padded_prompt = Some (str ''data:image/png;base64,AAAA'')"
    and pt: "trim (prompt padded_prompt) = str ''red car''"
    by (simp_all add: padded_prompt_def logo_uploaded_def initial_state_def trim_def str_def
          isWhiteSpace_def)
  from pt have pne: "trim (prompt padded_prompt) \<noteq> []" by (simp add: str_Nil_iff)
  from pne mockup_prompt_trimmed_override [OF pu ne, of "answering image_only" 0 0]
  have trimmed: "finalPrompt padded_prompt = str ''red car''"
    by (simp add: pt)
  have lu: "uploadedImage logo_uploaded = Some (str ''data:image/png;base64,AAAA'')"
    and lt: "trim (prompt logo_uploaded) = []"
    and mug: "MOCKUP_PRESETS ! 0 \<in> set MOCKUP_PRESETS"
      "preset_id (MOCKUP_PRESETS ! 0) = selectedPreset logo_uploaded"
      "promptTemplate (MOCKUP_PRESETS ! 0) =
         str ''Place this logo realistically on a clean white ceramic coffee mug sitting on a wooden table. Professional product photography.''"
    unfolding MOCKUP_PRESETS_def by (simp_all add: logo_uploaded_def initial_state_def trim_Nil)
  from lt mug(1,2) mockup_prompt_trimmed_override [OF lu ne, of "answering image_only" 0 0]
  have "finalPrompt logo_uploaded = promptTemplate (MOCKUP_PRESETS ! 0)"
    by blast
  then have preset: "finalPrompt logo_uploaded =
     str ''Place this logo realistically on a clean white ceramic coffee mug sitting on a wooden table. Professional product photography.''"
    by (simp only: mug(3))
  from vintage_fields(1) ne fp stored pu pne trimmed lu lt mug(1,2) preset show ?thesis
    by blast
qed

text \<open>
  C3. After every submission the handler accepts (an image is uploaded for a mockup, the
  trimmed prompt is not empty for a generation), the busy flag is false, whether the
  generation call returned or threw; and when it threw, the gallery is the one before. The
  same holds of the code after the \<open>await\<close> on whatever state it finds.
\<close>

theorem busy_flag_cleared_and_gallery_kept_on_failure:
  "(\<forall>u. uploadedImage st = Some u \<and> u \<noteq> [] \<longrightarrow>
      isGenerating (snd (handleMockupGenerate gc n1 n2 st)) = False \<and>
      (\<forall>e. snd (generateMockup gc (at_index (split u 0x2C) 1) (uploadedMimeType st) (finalPrompt st)) = Inl e
         \<longrightarrow> gallery (snd (handleMockupGenerate gc n1 n2 st)) = gallery st)) \<and>
   (trim (prompt st) \<noteq> [] \<longrightarrow>
      isGenerating (snd (handleImageGenerate gi n1 n2 st)) = False \<and>
      (\<forall>e. snd (generateImage gi (prompt st) (Some (selectedAspectRatio st))) = Inl e
         \<longrightarrow> gallery (snd (handleImageGenerate gi n1 n2 st)) = gallery st)) \<and>
   isGenerating (snd (handleMockupGenerate_settled fp n1 n2 outcome s)) = False \<and>
   isGenerating (snd (handleImageGenerate_settled fp n1 n2 outcome s)) = False \<and>
   gallery (snd (handleMockupGenerate_settled fp n1 n2 (Inl err) s)) = gallery s \<and>
   gallery (snd (handleImageGenerate_settled fp n1 n2 (Inl err) s)) = gallery s"
  by (simp add: handleMockupGenerate_accepted handleImageGenerate_accepted mockup_settled_busy
        image_settled_busy mockup_settled_failure image_settled_failure)

text \<open>
  C3 on the specification's example, an image-edit response with zero content parts, and on
  a text-to-image call rejected for quota: the gallery keeps its one earlier entry and the
  busy flag is false.
\<close>

theorem busy_flag_cleared_and_gallery_kept_on_failure_witness:
  "uploadedImage failed_before = Some (str ''data:image/png;base64,AAAA'') \<and>
   str ''data:image/png;base64,AAAA'' \<noteq> [] \<and>
   snd (generateMockup (answering no_parts) (at_index (split (str ''data:image/png;base64,AAAA'') 0x2C) 1)
          (uploadedMimeType failed_before) (finalPrompt failed_before))
     = Inl (Error (str ''No image generated in response'')) \<and>
   isGenerating (snd (handleMockupGenerate (answering no_parts) 1730000000000 1730000000001 failed_before)) = False \<and>
   gallery (snd (handleMockupGenerate (answering no_parts) 1730000000000 1730000000001 failed_before)) = [earlier_entry] \<and>
   trim (prompt skyline_again) \<noteq> [] \<and>
   snd (generateImage (rejecting quota_exceeded) (prompt skyline_again) (Some (selectedAspectRatio skyline_again)))
     = Inl quota_exceeded \<and>
   isGenerating (snd (handleImageGenerate (rejecting quota_exceeded) 1730000000000 1730000000001 skyline_again)) = False \<and>
   gallery (snd (handleImageGenerate (rejecting quota_exceeded) 1730000000000 1730000000001 skyline_again)) = [earlier_entry]"
proof -
  have u: "uploadedImage failed_before = Some (str ''data:image/png;base64,AAAA'')"
    and g: "gallery failed_before = [earlier_entry]"
    by (simp_all add: failed_before_def logo_uploaded_def initial_state_def)
  have ne: "str ''data:image/png;base64,AAAA'' \<noteq> []" by (simp add: str_Nil_iff)
  have fails: "snd (generateMockup (answering no_parts) b m p) = Inl (Error (str ''No image generated in response''))"
    for b m p
    by (simp add: generateMockup_snd generateMockup_response_def answering_def no_parts_def at_index_def)
  have t: "trim (prompt skyline_again) \<noteq> []"
    and g': "gallery skyline_again = [earlier_entry]"
    by (simp_all add: skyline_again_def skyline_prompt_def initial_state_def trim_def str_def isWhiteSpace_def)
  have rejects: "snd (generateImage (rejecting quota_exceeded) p r) = Inl quota_exceeded" for p r
    by (simp add: generateImage_snd generateImage_response_def rejecting_def)
  note mockup_case = busy_flag_cleared_and_gallery_kept_on_failure
    [of failed_before "answering no_parts" 1730000000000 1730000000001]
  note generation_case = busy_flag_cleared_and_gallery_kept_on_failure
    [of skyline_again _ 1730000000000 1730000000001 "rejecting quota_exceeded"]
  from mockup_case generation_case u ne fails t rejects g g' show ?thesis
    by (simp del: split.simps)
qed

text \<open>
  C4. A successful submission, mockup or generation, puts its new entry at the head of the
  gallery and leaves the entries that were there behind it, in their order; and over any
  sequence of user actions the gallery at the start remains, unchanged and in order, the
  tail of the gallery at the end.
\<close>

theorem gallery_newest_first:
  "(\<forall>u url. uploadedImage st = Some u \<and> u \<noteq> [] \<and>
       snd (generateMockup gc (at_index (split u 0x2C) 1) (uploadedMimeType st) (finalPrompt st)) = Inr url
       \<longrightarrow> (\<exists>new. gallery (snd (handleMockupGenerate gc n1 n2 st)) = new # gallery st \<and> img_url new = url)) \<and>
   (\<forall>url. trim (prompt st) \<noteq> [] \<and>
       snd (generateImage gi (prompt st) (Some (selectedAspectRatio st))) = Inr url
       \<longrightarrow> (\<exists>new. gallery (snd (handleImageGenerate gi n1 n2 st)) = new # gallery st \<and> img_url new = url)) \<and>
   (\<exists>new. gallery (snd (handleMockupGenerate_settled fp n1 n2 (Inr result) s)) = new # gallery s \<and> img_url new = result) \<and>
   (\<exists>new. gallery (snd (handleImageGenerate_settled fp n1 n2 (Inr result) s)) = new # gallery s \<and> img_url new = result) \<and>
   suffix (gallery st) (gallery (snd (session acts st)))"
proof (intro conjI allI impI)
  fix u url
  assume "uploadedImage st = Some u \<and> u \<noteq> [] \<and>
       snd (generateMockup gc (at_index (split u 0x2C) 1) (uploadedMimeType st) (finalPrompt st)) = Inr url"
  then show "\<exists>new. gallery (snd (handleMockupGenerate gc n1 n2 st)) = new # gallery st \<and> img_url new = url"
    by (simp add: handleMockupGenerate_success)
next
  fix url
  assume "trim (prompt st) \<noteq> [] \<and>
       snd (generateImage gi (prompt st) (Some (selectedAspectRatio st))) = Inr url"
  then show "\<exists>new. gallery (snd (handleImageGenerate gi n1 n2 st)) = new # gallery st \<and> img_url new = url"
    by (simp add: handleImageGenerate_success)
next
  show "\<exists>new. gallery (snd (handleMockupGenerate_settled fp n1 n2 (Inr result) s)) = new # gallery s \<and> img_url new = result"
    by (simp add: mockup_settled_success)
next
  show "\<exists>new. gallery (snd (handleImageGenerate_settled fp n1 n2 (Inr result) s)) = new # gallery s \<and> img_url new = result"
    by (simp add: image_settled_success)
next
  show "suffix (gallery st) (gallery (snd (session acts st)))"
    by (rule session_gallery_suffix)
qed

text \<open>
  C4 on a successful mockup submission and on a successful generation submission, each
  starting with one earlier entry, and on a session of both in a row: the generation entry
  is at the head, the mockup entry behind it, the earlier entry last.
\<close>

theorem gallery_newest_first_witness:
  "uploadedImage failed_before = Some (str ''data:image/png;base64,AAAA'') \<and>
   str ''data:image/png;base64,AAAA'' \<noteq> [] \<and>
   snd (generateMockup (answering image_only) (at_index (split (str ''data:image/png;base64,AAAA'') 0x2C) 1)
         (uploadedMimeType failed_before) (finalPrompt failed_before))
     = Inr (str ''data:image/png;base64,iVBORw0KGgo='') \<and>
   (\<exists>new. gallery (snd (handleMockupGenerate (answering image_only) 1730000000000 1730000000001 failed_before))
            = new # [earlier_entry] \<and> img_url new = str ''data:image/png;base64,iVBORw0KGgo='') \<and>
   trim (prompt skyline_again) \<noteq> [] \<and>
   snd (generateImage (answering one_jpeg) (prompt skyline_again) (Some (selectedAspectRatio skyline_again)))
     = Inr (str ''data:image/jpeg;base64,/9j/4AAQSkZJRg=='') \<and>
   (\<exists>new. gallery (snd (handleImageGenerate (answering one_jpeg) 1730000000002 1730000000003 skyline_again))
            = new # [earlier_entry] \<and> img_url new = str ''data:image/jpeg;base64,/9j/4AAQSkZJRg=='') \<and>
   suffix [earlier_entry] (gallery (snd (session two_submissions failed_before))) \<and>
   gallery (snd (session two_submissions failed_before)) =
     [ \<lparr> img_id = toString 1730000000002, img_url = str ''data:image/jpeg;base64,/9j/4AAQSkZJRg=='',
         img_prompt = str ''a cat'', img_createdAt = 1730000000003, img_type = generation \<rparr>,
       \<lparr> img_id = toString 1730000000000, img_url = str ''data:image/png;base64,iVBORw0KGgo='',
         img_prompt = finalPrompt failed_before, img_createdAt = 1730000000001, img_type = mockup \<rparr>,
       earlier_entry ]"
proof -
  have ne: "str ''data:image/png;base64,AAAA'' \<noteq> []" by (simp add: str_Nil_iff)
  have ok: "snd (generateMockup (answering image_only) b m p) = Inr (str ''data:image/png;base64,iVBORw0KGgo='')"
    for b m p
    by (simp add: generateMockup_image_only str_append)
  have t: "trim (prompt skyline_again) \<noteq> []"
    and g: "gallery skyline_again = [earlier_entry]"
    by (simp_all add: skyline_again_def skyline_fields trim_skyline str_Nil_iff)
  have ok': "snd (generateImage (answering one_jpeg) p r) = Inr (str ''data:image/jpeg;base64,/9j/4AAQSkZJRg=='')"
    for p r
    by (simp add: generateImage_one_jpeg str_append)
  note mockup_case = gallery_newest_first
    [of failed_before "answering image_only" 1730000000000 1730000000001 _ _ _ _ two_submissions]
  note generation_case = gallery_newest_first
    [of skyline_again _ 1730000000002 1730000000003 "answering one_jpeg"]
  from ne ok mockup_case have 1:
    "\<exists>new. gallery (snd (handleMockupGenerate (answering image_only) 1730000000000 1730000000001 failed_before))
            = new # [earlier_entry] \<and> img_url new = str ''data:image/png;base64,iVBORw0KGgo=''"
    by (simp add: failed_before_fields del: split.simps)
  from t ok' generation_case have 2:
    "\<exists>new. gallery (snd (handleImageGenerate (answering one_jpeg) 1730000000002 1730000000003 skyline_again))
            = new # [earlier_entry] \<and> img_url new = str ''data:image/jpeg;base64,/9j/4AAQSkZJRg==''"
    by (simp add: g)
  from mockup_case have 3: "suffix [earlier_entry] (gallery (snd (session two_submissions failed_before)))"
    by (simp add: failed_before_fields del: split.simps)
  from failed_before_fields(1) ne ok [of _ "uploadedMimeType failed_before" "finalPrompt failed_before"]
    1 t ok' [of "prompt skyline_again" "Some (selectedAspectRatio skyline_again)"] 2 3
    two_submissions_gallery
  show ?thesis by blast
qed

text \<open>
  C5. \<open>generateImage\<close> sends one request, for exactly one image, with JPEG output, at the
  given aspect ratio, and nothing else but console lines; on a response with at least one
  image it returns \<open>data:image/jpeg;base64,\<close> followed by the bytes of the first image; on a
  response with no image list or an empty one it throws "No image generated"; and when the
  remote call rejects it throws what the call rejected with.
\<close>

theorem generateImage_one_jpeg_request_and_result:
  "(\<exists>logged. fst (generateImage g p (Some r)) =
       GenerateImages \<lparr> images_model = str ''imagen-4.0-generate-001'', images_prompt = p,
                        numberOfImages = 1, outputMimeType = str ''image/jpeg'',
                        aspectRatio = AspectRatio_value r \<rparr> # logged \<and>
       (\<forall>x\<in>set logged. \<exists>args. x = ConsoleError args)) \<and>
   (\<forall>response i rest. g (generateImage_request p (Some r)) = Inr response \<and>
        generatedImages response = Some (i # rest)
      \<longrightarrow> snd (generateImage g p (Some r)) = Inr (str ''data:image/jpeg;base64,'' @ imageBytes (image i))) \<and>
   (\<forall>response. g (generateImage_request p (Some r)) = Inr response \<and>
        (generatedImages response = None \<or> generatedImages response = Some [])
      \<longrightarrow> snd (generateImage g p (Some r)) = Inl (Error (str ''No image generated''))) \<and>
   (\<forall>e. g (generateImage_request p (Some r)) = Inl e \<longrightarrow> snd (generateImage g p (Some r)) = Inl e)"
proof (intro conjI allI impI)
  have "generateImage_request p (Some r) =
      \<lparr> images_model = str ''imagen-4.0-generate-001'', images_prompt = p,
        numberOfImages = 1, outputMimeType = str ''image/jpeg'',
        aspectRatio = AspectRatio_value r \<rparr>"
    by (simp add: generateImage_request_def)
  then show "\<exists>logged. fst (generateImage g p (Some r)) =
       GenerateImages \<lparr> images_model = str ''imagen-4.0-generate-001'', images_prompt = p,
                        numberOfImages = 1, outputMimeType = str ''image/jpeg'',
                        aspectRatio = AspectRatio_value r \<rparr> # logged \<and>
       (\<forall>x\<in>set logged. \<exists>args. x = ConsoleError args)"
    using generateImage_response_logs [of "g (generateImage_request p (Some r))"]
    by (simp add: generateImage_fst)
next
  fix response i rest
  assume "g (generateImage_request p (Some r)) = Inr response \<and> generatedImages response = Some (i # rest)"
  then show "snd (generateImage g p (Some r)) = Inr (str ''data:image/jpeg;base64,'' @ imageBytes (image i))"
    by (simp add: generateImage_snd generateImage_response_first)
next
  fix response
  assume "g (generateImage_request p (Some r)) = Inr response \<and>
        (generatedImages response = None \<or> generatedImages response = Some [])"
  then show "snd (generateImage g p (Some r)) = Inl (Error (str ''No image generated''))"
    by (simp add: generateImage_snd generateImage_response_none)
next
  fix e
  assume "g (generateImage_request p (Some r)) = Inl e"
  then show "snd (generateImage g p (Some r)) = Inl e"
    by (simp add: generateImage_snd generateImage_response_rejected)
qed

text \<open>
  C5 on the specification's example: one image at the aspect ratio \<open>16:9\<close> gives a data URI
  with the \<open>image/jpeg\<close> media type; an empty list of images and a rejected call both fail.
\<close>

theorem generateImage_one_jpeg_request_and_result_witness:
  "answering one_jpeg (generateImage_request (str ''a city skyline'') (Some WIDE)) = Inr one_jpeg \<and>
   generatedImages one_jpeg = Some [\<lparr>image = \<lparr>imageBytes = str ''/9j/4AAQSkZJRg==''\<rparr>\<rparr>] \<and>
   snd (generateImage (answering one_jpeg) (str ''a city skyline'') (Some WIDE))
     = Inr (str ''data:image/jpeg;base64,/9j/4AAQSkZJRg=='') \<and>
   answering no_images (generateImage_request (str ''a city skyline'') (Some WIDE)) = Inr no_images \<and>
   generatedImages no_images = Some [] \<and>
   snd (generateImage (answering no_images) (str ''a city skyline'') (Some WIDE))
     = Inl (Error (str ''No image generated'')) \<and>
   rejecting quota_exceeded (generateImage_request (str ''a city skyline'') (Some WIDE)) = Inl quota_exceeded \<and>
   snd (generateImage (rejecting quota_exceeded) (str ''a city skyline'') (Some WIDE)) = Inl quota_exceeded \<and>
   (\<exists>logged. fst (generateImage (answering one_jpeg) (str ''a city skyline'') (Some WIDE)) =
       GenerateImages \<lparr> images_model = str ''imagen-4.0-generate-001'', images_prompt = str ''a city skyline'',
                        numberOfImages = 1, outputMimeType = str ''image/jpeg'',
                        aspectRatio = str ''16:9'' \<rparr> # logged)"
proof -
  have a: "answering one_jpeg (generateImage_request (str ''a city skyline'') (Some WIDE)) = Inr one_jpeg"
    and b: "generatedImages one_jpeg = Some [\<lparr>image = \<lparr>imageBytes = str ''/9j/4AAQSkZJRg==''\<rparr>\<rparr>]"
    and c: "answering no_images (generateImage_request (str ''a city skyline'') (Some WIDE)) = Inr no_images"
    and d: "generatedImages no_images = Some []"
    and e: "rejecting quota_exceeded (generateImage_request (str ''a city skyline'') (Some WIDE)) = Inl quota_exceeded"
    by (simp_all add: answering_def rejecting_def one_jpeg_def no_images_def)
  note good = generateImage_one_jpeg_request_and_result [of "answering one_jpeg" "str ''a city skyline''" WIDE]
  note empty = generateImage_one_jpeg_request_and_result [of "answering no_images" "str ''a city skyline''" WIDE]
  note bad = generateImage_one_jpeg_request_and_result [of "rejecting quota_exceeded" "str ''a city skyline''" WIDE]
  from a b good have 1: "snd (generateImage (answering one_jpeg) (str ''a city skyline'') (Some WIDE))
     = Inr (str ''data:image/jpeg;base64,/9j/4AAQSkZJRg=='')"
    by (simp add: str_append)
  from c d empty have 2: "snd (generateImage (answering no_images) (str ''a city skyline'') (Some WIDE))
     = Inl (Error (str ''No image generated''))"
    by simp
  from e bad have 3: "snd (generateImage (rejecting quota_exceeded) (str ''a city skyline'') (Some WIDE)) = Inl quota_exceeded"
    by blast
  from good have 4: "\<exists>logged. fst (generateImage (answering one_jpeg) (str ''a city skyline'') (Some WIDE)) =
       GenerateImages \<lparr> images_model = str ''imagen-4.0-generate-001'', images_prompt = str ''a city skyline'',
                        numberOfImages = 1, outputMimeType = str ''image/jpeg'',
                        aspectRatio = str ''16:9'' \<rparr> # logged"
    by auto
  from a b c d e 1 2 3 4 show ?thesis by blast
qed

text \<open>
  C6. For every successful generation submission the new gallery entry has the kind
  \<open>generation\<close>, and its prompt is the free-text prompt exactly as submitted, which is also the
  prompt of the request.
\<close>

theorem generation_entry_kind_and_prompt:
  assumes "trim (prompt st) \<noteq> []"
    and "snd (generateImage g (prompt st) (Some (selectedAspectRatio st))) = Inr url"
  shows "gallery (snd (handleImageGenerate g n1 n2 st)) =
           \<lparr> img_id = toString n1, img_url = url, img_prompt = prompt st, img_createdAt = n2,
             img_type = generation \<rparr> # gallery st \<and>
         (\<exists>logged. fst (handleImageGenerate g n1 n2 st) =
            GenerateImages (generateImage_request (prompt st) (Some (selectedAspectRatio st))) # logged)"
proof
  show "gallery (snd (handleImageGenerate g n1 n2 st)) =
           \<lparr> img_id = toString n1, img_url = url, img_prompt = prompt st, img_createdAt = n2,
             img_type = generation \<rparr> # gallery st"
    using assms by (rule handleImageGenerate_success)
  show "\<exists>logged. fst (handleImageGenerate g n1 n2 st) =
            GenerateImages (generateImage_request (prompt st) (Some (selectedAspectRatio st))) # logged"
    by (simp add: handleImageGenerate_accepted [OF assms(1)] generateImage_fst)
qed

text \<open>
  C6 on a prompt that ends with a space: the stored prompt keeps the space.
\<close>

theorem generation_entry_kind_and_prompt_witness:
  "trim (prompt skyline_prompt) \<noteq> [] \<and>
   snd (generateImage (answering one_jpeg) (prompt skyline_prompt) (Some (selectedAspectRatio skyline_prompt)))
     = Inr (str ''data:image/jpeg;base64,/9j/4AAQSkZJRg=='') \<and>
   gallery (snd (handleImageGenerate (answering one_jpeg) 1730000000000 1730000000001 skyline_prompt)) =
     [\<lparr> img_id = str ''1730000000000'', img_url = str ''data:image/jpeg;base64,/9j/4AAQSkZJRg=='',
        img_prompt = str ''a city skyline '', img_createdAt = 1730000000001, img_type = generation \<rparr>]"
proof -
  have t: "trim (prompt skyline_prompt) \<noteq> []"
    by (simp add: skyline_fields trim_skyline str_Nil_iff)
  have ok: "snd (generateImage (answering one_jpeg) (prompt skyline_prompt) (Some (selectedAspectRatio skyline_prompt)))
     = Inr (str ''data:image/jpeg;base64,/9j/4AAQSkZJRg=='')"
    by (simp add: generateImage_one_jpeg str_append)
  from generation_entry_kind_and_prompt [OF t ok, of 1730000000000 1730000000001] t ok
  show ?thesis by (simp add: skyline_fields toString_sample)
qed

text \<open>
  C7. Switching the mode sets the mode and clears the free-text prompt; the uploaded image
  with its type, the gallery, the busy flag, the selected preset and the aspect ratio are
  unchanged. The mode buttons are always there.
\<close>

theorem switchMode_clears_prompt_only:
  "act (SwitchMode m) st = ([], switchMode m st) \<and>
   mode (switchMode m st) = m \<and>
   prompt (switchMode m st) = [] \<and>
   uploadedImage (switchMode m st) = uploadedImage st \<and>
   uploadedMimeType (switchMode m st) = uploadedMimeType st \<and>
   gallery (switchMode m st) = gallery st \<and>
   isGenerating (switchMode m st) = isGenerating st \<and>
   selectedPreset (switchMode m st) = selectedPreset st \<and>
   selectedAspectRatio (switchMode m st) = selectedAspectRatio st"
  by (simp add: act_def switchMode_def)

text \<open>
  C7 on a state with a typed prompt and an uploaded image.
\<close>

theorem switchMode_clears_prompt_only_witness:
  "prompt vintage_filter = str ''Add a vintage filter to this image'' \<and>
   switchMode IMAGE_GEN vintage_filter =
     \<lparr> mode = IMAGE_GEN, uploadedImage = Some (str ''data:image/png;base64,AAAA''),
       uploadedMimeType = str ''image/png'', prompt = [], isGenerating = False, gallery = [],
       selectedPreset = str ''hoodie'', selectedAspectRatio = SQUARE \<rparr>"
proof -
  have fields: "uploadedImage vintage_filter = Some (str ''data:image/png;base64,AAAA'')"
    "uploadedMimeType vintage_filter = str ''image/png''" "isGenerating vintage_filter = False"
    "gallery vintage_filter = []" "selectedPreset vintage_filter = str ''hoodie''"
    "selectedAspectRatio vintage_filter = SQUARE"
    "prompt vintage_filter = str ''Add a vintage filter to this image''"
    by (simp_all add: vintage_filter_def logo_uploaded_def initial_state_def)
  from switchMode_clears_prompt_only [of IMAGE_GEN vintage_filter] fields
  show ?thesis by (cases "switchMode IMAGE_GEN vintage_filter") simp
qed

text \<open>
  C8. For every gallery entry the download action offers the entry's url under the file name
  \<open>mockup-ai-<id>.png\<close>; this includes the entry of a successful generation, whose url
  starts with \<open>data:image/jpeg;base64,\<close>.
\<close>

theorem download_name_always_png:
  "downloadImage (img_url item) (img_id item) =
     [Download (img_url item) (str ''mockup-ai-'' @ img_id item @ str ''.png'')] \<and>
   perform (ClickDownload item) st =
     ([Download (img_url item) (str ''mockup-ai-'' @ img_id item @ str ''.png'')], st) \<and>
   (\<forall>url. trim (prompt st) \<noteq> [] \<and>
       snd (generateImage g (prompt st) (Some (selectedAspectRatio st))) = Inr url
      \<longrightarrow> (\<exists>new. gallery (snd (handleImageGenerate g n1 n2 st)) = new # gallery st \<and>
             img_type new = generation \<and>
             prefix (str ''data:image/jpeg;base64,'') (img_url new) \<and>
             downloadImage (img_url new) (img_id new) =
               [Download (img_url new) (str ''mockup-ai-'' @ toString n1 @ str ''.png'')]))"
proof (intro conjI allI impI)
  fix url
  assume a: "trim (prompt st) \<noteq> [] \<and>
       snd (generateImage g (prompt st) (Some (selectedAspectRatio st))) = Inr url"
  then have "prefix (str ''data:image/jpeg;base64,'') url"
    using generateImage_response_jpeg
      [of "g (generateImage_request (prompt st) (Some (selectedAspectRatio st)))" url]
    by (simp add: generateImage_snd)
  with a show "\<exists>new. gallery (snd (handleImageGenerate g n1 n2 st)) = new # gallery st \<and>
             img_type new = generation \<and>
             prefix (str ''data:image/jpeg;base64,'') (img_url new) \<and>
             downloadImage (img_url new) (img_id new) =
               [Download (img_url new) (str ''mockup-ai-'' @ toString n1 @ str ''.png'')]"
    by (simp add: handleImageGenerate_success downloadImage_def)
qed (simp_all add: downloadImage_def)

text \<open>
  C8 on a fresh generation entry and on an earlier mockup entry.
\<close>

theorem download_name_always_png_witness:
  "trim (prompt skyline_prompt) \<noteq> [] \<and>
   snd (generateImage (answering one_jpeg) (prompt skyline_prompt) (Some (selectedAspectRatio skyline_prompt)))
     = Inr (str ''data:image/jpeg;base64,/9j/4AAQSkZJRg=='') \<and>
   (\<exists>new. gallery (snd (handleImageGenerate (answering one_jpeg) 1730000000000 1730000000001 skyline_prompt)) = [new] \<and>
      img_type new = generation \<and>
      prefix (str ''data:image/jpeg;base64,'') (img_url new) \<and>
      downloadImage (img_url new) (img_id new) =
        [Download (img_url new) (str ''mockup-ai-1730000000000.png'')]) \<and>
   downloadImage (img_url earlier_entry) (img_id earlier_entry) =
     [Download (str ''data:image/png;base64,BBBB'') (str ''mockup-ai-1729999999000.png'')]"
proof -
  have t: "trim (prompt skyline_prompt) \<noteq> []"
    by (simp add: skyline_fields trim_skyline str_Nil_iff)
  have ok: "snd (generateImage (answering one_jpeg) (prompt skyline_prompt) (Some (selectedAspectRatio skyline_prompt)))
     = Inr (str ''data:image/jpeg;base64,/9j/4AAQSkZJRg=='')"
    by (simp add: generateImage_one_jpeg str_append)
  note inst = download_name_always_png
    [of earlier_entry skyline_prompt "answering one_jpeg" 1730000000000 1730000000001]
  from inst have 1: "downloadImage (img_url earlier_entry) (img_id earlier_entry) =
     [Download (str ''data:image/png;base64,BBBB'') (str ''mockup-ai-1729999999000.png'')]"
    by (simp add: earlier_entry_def str_append)
  from inst t ok obtain new where
    n: "gallery (snd (handleImageGenerate (answering one_jpeg) 1730000000000 1730000000001 skyline_prompt))
          = new # gallery skyline_prompt"
      "img_type new = generation"
      "prefix (str ''data:image/jpeg;base64,'') (img_url new)"
      "downloadImage (img_url new) (img_id new) =
         [Download (img_url new) (str ''mockup-ai-'' @ toString 1730000000000 @ str ''.png'')]"
    by blast
  have name: "str ''mockup-ai-'' @ toString 1730000000000 @ str ''.png'' = str ''mockup-ai-1730000000000.png''"
    by (simp add: toString_sample str_append)
  from n have 2: "\<exists>new. gallery (snd (handleImageGenerate (answering one_jpeg) 1730000000000 1730000000001 skyline_prompt)) = [new] \<and>
      img_type new = generation \<and>
      prefix (str ''data:image/jpeg;base64,'') (img_url new) \<and>
      downloadImage (img_url new) (img_id new) =
        [Download (img_url new) (str ''mockup-ai-1730000000000.png'')]"
    by (simp only: name skyline_fields) blast
  from t ok 1 2 show ?thesis by blast
qed

text \<open>
  C9. Clicking a preset button sets the selected preset id and clears the free-text prompt;
  the uploaded image with its type, the gallery, the mode, the aspect ratio and the busy flag
  are unchanged.
\<close>

theorem clickPreset_clears_prompt:
  "selectedPreset (clickPreset preset st) = preset_id preset \<and>
   prompt (clickPreset preset st) = [] \<and>
   uploadedImage (clickPreset preset st) = uploadedImage st \<and>
   uploadedMimeType (clickPreset preset st) = uploadedMimeType st \<and>
   gallery (clickPreset preset st) = gallery st \<and>
   mode (clickPreset preset st) = mode st \<and>
   selectedAspectRatio (clickPreset preset st) = selectedAspectRatio st \<and>
   isGenerating (clickPreset preset st) = isGenerating st \<and>
   (mode st = MOCKUP \<and> preset \<in> set MOCKUP_PRESETS \<longrightarrow>
      act (ClickPreset preset) st = ([], clickPreset preset st))"
  by (simp add: act_def clickPreset_def)

text \<open>
  C9 on a state with a typed prompt: clicking the tote-bag preset discards the prompt.
\<close>

theorem clickPreset_clears_prompt_witness:
  "mode vintage_filter = MOCKUP \<and> MOCKUP_PRESETS ! 3 \<in> set MOCKUP_PRESETS \<and>
   prompt vintage_filter = str ''Add a vintage filter to this image'' \<and>
   act (ClickPreset (MOCKUP_PRESETS ! 3)) vintage_filter =
     ([], \<lparr> mode = MOCKUP, uploadedImage = Some (str ''data:image/png;base64,AAAA''),
            uploadedMimeType = str ''image/png'', prompt = [], isGenerating = False, gallery = [],
            selectedPreset = str ''tote'', selectedAspectRatio = SQUARE \<rparr>)"
proof -
  have fields: "uploadedImage vintage_filter = Some (str ''data:image/png;base64,AAAA'')"
    "uploadedMimeType vintage_filter = str ''image/png''" "isGenerating vintage_filter = False"
    "gallery vintage_filter = []" "mode vintage_filter = MOCKUP"
    "selectedAspectRatio vintage_filter = SQUARE"
    "prompt vintage_filter = str ''Add a vintage filter to this image''"
    by (simp_all add: vintage_filter_def logo_uploaded_def initial_state_def)
  have tote: "MOCKUP_PRESETS ! 3 \<in> set MOCKUP_PRESETS" "preset_id (MOCKUP_PRESETS ! 3) = str ''tote''"
    unfolding MOCKUP_PRESETS_def by simp_all
  from clickPreset_clears_prompt [of "MOCKUP_PRESETS ! 3" vintage_filter] fields tote
  show ?thesis by (cases "clickPreset (MOCKUP_PRESETS ! 3) vintage_filter") simp
qed

text \<open>
  C10. For every mockup submission with an empty free-text prompt and a selected preset id
  that matches no catalogue entry, the resolved prompt is the fixed sentence "Place this
  design on a product.", and with an uploaded image the request is sent with it.
\<close>

theorem fallback_prompt_for_unknown_preset:
  assumes "prompt st = []" and "\<forall>p\<in>set MOCKUP_PRESETS. preset_id p \<noteq> selectedPreset st"
  shows "finalPrompt st = str ''Place this design on a product.'' \<and>
    (\<forall>u. uploadedImage st = Some u \<and> u \<noteq> [] \<longrightarrow>
       (\<exists>logged. fst (handleMockupGenerate g n1 n2 st) =
          GenerateContent (generateMockup_request (at_index (split u 0x2C) 1) (uploadedMimeType st)
            (str ''Place this design on a product.'')) # logged))"
proof -
  from assms(1) have "trim (prompt st) = []" by (simp add: trim_Nil)
  then have fp: "finalPrompt st = str ''Place this design on a product.''"
    using assms(2) by (rule finalPrompt_fallback)
  show ?thesis
    using handleMockupGenerate_sends [of st _ g n1 n2] by (auto simp: fp)
qed

text \<open>
  C10 on a state whose selected preset id is \<open>cap\<close>, which the catalogue does not have.
\<close>

theorem fallback_prompt_for_unknown_preset_witness:
  "prompt unknown_preset = [] \<and>
   selectedPreset unknown_preset \<notin> set (map preset_id MOCKUP_PRESETS) \<and>
   finalPrompt unknown_preset = str ''Place this design on a product.'' \<and>
   fst (handleMockupGenerate (answering image_only) 1730000000000 1730000000001 unknown_preset) =
     [GenerateContent (generateMockup_request (Some (str ''AAAA'')) (str ''image/png'')
        (str ''Place this design on a product.''))]"
proof -
  have f: "uploadedImage unknown_preset = Some (str ''data:image/png;base64,AAAA'')"
      "prompt unknown_preset = []" "selectedPreset unknown_preset = str ''cap''"
      "uploadedMimeType unknown_preset = str ''image/png''"
    by (simp_all add: unknown_preset_def logo_uploaded_def initial_state_def)
  have ne: "str ''data:image/png;base64,AAAA'' \<noteq> []" by (simp add: str_Nil_iff)
  have none: "\<forall>p\<in>set MOCKUP_PRESETS. preset_id p \<noteq> selectedPreset unknown_preset"
    unfolding MOCKUP_PRESETS_def by (simp add: f str_eq_iff)
  note inst = fallback_prompt_for_unknown_preset [OF f(2) none,
      of "answering image_only" 1730000000000 1730000000001]
  then have fp: "finalPrompt unknown_preset = str ''Place this design on a product.''" by simp
  have "fst (handleMockupGenerate (answering image_only) 1730000000000 1730000000001 unknown_preset) =
     [GenerateContent (generateMockup_request (Some (str ''AAAA'')) (str ''image/png'')
        (str ''Place this design on a product.''))]"
    by (simp add: handleMockupGenerate_accepted [OF f(1) ne] fp f split_data_uri [unfolded One_nat_def]
          generateMockup_image_only handleMockupGenerate_settled_def)
  moreover have "selectedPreset unknown_preset \<notin> set (map preset_id MOCKUP_PRESETS)"
    using none by auto
  ultimately show ?thesis using inst f by simp
qed

end
